theory Spec2Isabelle
  imports Main
begin

section \<open>libHLC: the module lifecycle and the compilation pipeline of hlc.cpp\<close>

text \<open>
  The file \<^verbatim>\<open>src/libhlc/hlc.cpp\<close> orchestrates a compiler framework: it parses,
  verifies, optimises, links and lowers IR modules by calling the framework. The
  embedding keeps that split. What hlc.cpp itself computes (level dispatch, the pass
  lists it assembles, status codes, early returns, pointer handling) is defined below,
  function by function. What the framework computes (verification, cloning, linking,
  running a pass list, target lookup) is a parameter: a record \<open>'m llvm\<close> of
  functions over an arbitrary type \<open>'m\<close> of module values. Theorems hold for every
  such record.
\<close>

subsection \<open>Values of the framework that hlc.cpp builds or inspects\<close>

type_synonym addr = nat

text \<open>\<^verbatim>\<open>CodeGenOpt::Level\<close> and \<^verbatim>\<open>TargetMachine::CodeGenFileType\<close>.\<close>

datatype CodeGenOpt_Level =
  CodeGenOpt_None | CodeGenOpt_Less | CodeGenOpt_Default | CodeGenOpt_Aggressive

datatype CodeGenFileType = CGFT_AssemblyFile | CGFT_ObjectFile

text \<open>
  \<^verbatim>\<open>TargetOptions\<close>: hlc.cpp either default-constructs it (Optimize) or takes it from
  \<^verbatim>\<open>InitTargetOptionsFromCodeGenFlags()\<close> and sets \<^verbatim>\<open>MCOptions.AsmVerbose\<close>
  (CompileModule).
\<close>

record TargetOptions =
  FromCodeGenFlags :: bool
  AsmVerbose :: bool

text \<open>
  A \<^verbatim>\<open>TargetMachine\<close> is identified with the arguments hlc.cpp passes to
  \<^verbatim>\<open>createTargetMachine\<close>; whether the framework returns a machine for them (a non-null
  pointer) is the framework's answer. The relocation and code model arguments come from
  the framework's own command-line flags and are left to it.
\<close>

record TargetMachine =
  TM_Target :: string
  TM_Triple :: string
  TM_CPU :: string
  TM_Features :: string
  TM_Options :: TargetOptions
  TM_OptLevel :: CodeGenOpt_Level

text \<open>
  \<^verbatim>\<open>TargetLibraryInfoImpl\<close>: the triple it was built for, and whether
  \<^verbatim>\<open>disableAllFunctions()\<close> was called on it.
\<close>

record TargetLibraryInfoImpl =
  TLII_Triple :: string
  TLII_AllFunctionsDisabled :: bool

text \<open>
  The inliner a \<^verbatim>\<open>PassManagerBuilder\<close> holds: \<^verbatim>\<open>createFunctionInliningPass()\<close>
  (no thresholds), \<^verbatim>\<open>createFunctionInliningPass(OptLevel, SizeLevel)\<close>, or
  \<^verbatim>\<open>createAlwaysInlinerPass()\<close>.
\<close>

datatype Inliner = FunctionInliningPass "(nat \<times> nat) option" | AlwaysInlinerPass

text \<open>
  The fields of \<^verbatim>\<open>PassManagerBuilder\<close> that hlc.cpp reads or writes. The two level
  fields carry a prefix, because \<open>OptLevel\<close> and \<open>SizeLevel\<close> are also parameter names.
\<close>

record PassManagerBuilder =
  Builder_OptLevel :: nat
  Builder_SizeLevel :: nat
  Inliner :: "Inliner option"
  DisableUnitAtATime :: bool
  DisableUnrollLoops :: bool
  LoopVectorize :: bool
  SLPVectorize :: bool
  VerifyInput :: bool

text \<open>
  What hlc.cpp adds to a pass manager. The three \<open>populate...\<close> calls add whatever the
  framework derives from the builder; the list entry records the builder they were
  called on. \<open>EmitFilePasses\<close> stands for what \<^verbatim>\<open>addPassesToEmitFile\<close> adds.
\<close>

datatype pass =
    VerifierPass
  | TargetLibraryInfoWrapperPass TargetLibraryInfoImpl
  | TargetTransformInfoWrapperPass "TargetMachine option"
  | FunctionPasses PassManagerBuilder
  | ModulePasses PassManagerBuilder
  | LTOPasses PassManagerBuilder
  | EmitFilePasses TargetMachine CodeGenFileType bool

subsection \<open>The framework, as a parameter\<close>

text \<open>
  A framework call either comes back or ends the process (\<^verbatim>\<open>report_fatal_error\<close>, as
  the framework's verifier pass does on a broken module).
\<close>

datatype 'a fw_result = Done 'a | Fatal

text \<open>
  \<^item> \<open>verifyModule m\<close> is \<open>Some d\<close> when \<open>m\<close> is broken (the C++ function returns true),
    \<open>d\<close> being the diagnostics it prints when given a stream;
  \<^item> \<open>lookupTarget arch triple\<close> is \<open>Inl Error\<close> (a null target and the error text) or
    \<open>Inr\<close> the target found;
  \<^item> \<open>Triple_getArch t\<close> is the architecture number of a triple, 0 for
    \<^verbatim>\<open>UnknownArch\<close>;
  \<^item> \<open>addPassesToEmitFile tm ft\<close> is True when the target cannot emit the file type
    (the C++ function returns true on failure);
  \<^item> \<open>linkModules dst src\<close> gives the error flag (True on error) and \<open>dst\<close> as the
    linker leaves it;
  \<^item> \<open>PM_run\<close> gives the module as the passes leave it and the bytes that emit passes
    wrote to their stream;
  \<^item> \<open>Module_functions\<close> names the functions of a module in the order of its function
    list.
\<close>

record 'm llvm =
  StripDebugInfo :: "'m \<Rightarrow> 'm"
  verifyModule :: "'m \<Rightarrow> string option"
  Triple_normalize :: "string \<Rightarrow> string"
  Triple_getArch :: "string \<Rightarrow> nat"
  lookupTarget :: "string \<Rightarrow> string \<Rightarrow> string + string"
  createTargetMachine :: "TargetMachine \<Rightarrow> bool"
  createDataLayout :: "TargetMachine \<Rightarrow> string"
  setTargetTriple :: "string \<Rightarrow> 'm \<Rightarrow> 'm"
  getTargetTriple :: "'m \<Rightarrow> string"
  setFunctionAttributes :: "string \<Rightarrow> string \<Rightarrow> 'm \<Rightarrow> 'm"
  DataLayout_isDefault :: "'m \<Rightarrow> bool"
  setDataLayout :: "string \<Rightarrow> 'm \<Rightarrow> 'm"
  PassManagerBuilder_new :: PassManagerBuilder
  Module_functions :: "'m \<Rightarrow> string list"
  FPM_doInitialization :: "pass list \<Rightarrow> 'm \<Rightarrow> 'm fw_result"
  FPM_run :: "pass list \<Rightarrow> string \<Rightarrow> 'm \<Rightarrow> 'm fw_result"
  FPM_doFinalization :: "pass list \<Rightarrow> 'm \<Rightarrow> 'm fw_result"
  PM_run :: "pass list \<Rightarrow> 'm \<Rightarrow> ('m \<times> string) fw_result"
  addPassesToEmitFile :: "TargetMachine \<Rightarrow> CodeGenFileType \<Rightarrow> bool"
  CloneModule :: "'m \<Rightarrow> 'm"
  linkModules :: "'m \<Rightarrow> 'm \<Rightarrow> bool \<times> 'm"
  Module_print :: "'m \<Rightarrow> string"

subsection \<open>Globals of hlc.cpp (lines 55--63)\<close>

record switches =
  DisableInline :: bool
  UnitAtATime :: bool
  DisableLoopVectorization :: bool
  DisableSLPVectorization :: bool
  StripDebug :: bool
  DisableOptimizations :: bool
  DisableSimplifyLibCalls :: bool

text \<open>Their initial values; they are plain non-const globals, so other code may set them.\<close>

definition initial_switches :: switches where
  "initial_switches =
     \<lparr>DisableInline = False, UnitAtATime = True, DisableLoopVectorization = False,
      DisableSLPVectorization = False, StripDebug = False, DisableOptimizations = False,
      DisableSimplifyLibCalls = False\<rparr>"

definition MArch :: string where
  "MArch = ''amdgcn''"

subsection \<open>Process state and outcomes\<close>

text \<open>
  The store holds the live \<^verbatim>\<open>llvm::Module\<close> objects and the live \<^verbatim>\<open>ModuleRef\<close>
  objects, each by address. A \<^verbatim>\<open>ModuleRef\<close> has one field, the pointer \<^verbatim>\<open>M\<close>:
  \<open>None\<close> is \<^verbatim>\<open>nullptr\<close>. A handle (\<^verbatim>\<open>ModuleRef*\<close>) is an address; an address
  outside \<open>dom (refs s)\<close> is a null or dangling handle. \<open>errs\<close> is what has been written
  to the standard error stream.
\<close>

record 'm process =
  modules :: "addr \<rightharpoonup> 'm"
  refs :: "addr \<rightharpoonup> addr option"
  errs :: string

text \<open>
  A call returns a value and the new state, or ends the process with \<^verbatim>\<open>exit(n)\<close>,
  or ends it abnormally (a failed \<^verbatim>\<open>assert\<close>, a fatal error of the framework), or has
  undefined behaviour (it reads through a null or dangling pointer, or deletes an object
  that is not live).
\<close>

datatype ('a, 's) outcome = Returns 'a 's | Exits int 's | Aborts | Undefined

subsection \<open>ModuleRef (lines 66--91)\<close>

definition operator_bool :: "addr \<Rightarrow> 'm process \<Rightarrow> (bool, 'm process) outcome" where
  "operator_bool this s =
     (case refs s this of
        None \<Rightarrow> Undefined
      | Some M \<Rightarrow> Returns (M \<noteq> None) s)"

definition getModule :: "addr \<Rightarrow> 'm process \<Rightarrow> (addr option, 'm process) outcome" where
  "getModule this s =
     (case refs s this of
        None \<Rightarrow> Undefined
      | Some M \<Rightarrow> Returns M s)"

text \<open>
  \<^verbatim>\<open>delete M; M = nullptr;\<close> Deleting a null pointer does nothing; deleting a pointer
  to a module that is no longer live is undefined.
\<close>

definition destroy :: "addr \<Rightarrow> 'm process \<Rightarrow> (unit, 'm process) outcome" where
  "destroy this s =
     (case refs s this of
        None \<Rightarrow> Undefined
      | Some M \<Rightarrow>
          (case M of
             None \<Rightarrow> Returns () (s\<lparr>refs := (refs s)(this \<mapsto> None)\<rparr>)
           | Some a \<Rightarrow>
               (case modules s a of
                  None \<Rightarrow> Undefined
                | Some m \<Rightarrow>
                    Returns () (s\<lparr>modules := (modules s)(a := None),
                                   refs := (refs s)(this \<mapsto> None)\<rparr>))))"

text \<open>Reading the module a \<^verbatim>\<open>Module*\<close> points to.\<close>

definition deref :: "'m process \<Rightarrow> addr option \<Rightarrow> (addr \<times> 'm) option" where
  "deref s p =
     (case p of
        None \<Rightarrow> None
      | Some a \<Rightarrow> (case modules s a of None \<Rightarrow> None | Some m \<Rightarrow> Some (a, m)))"

definition to_string :: "'m llvm \<Rightarrow> addr \<Rightarrow> 'm process \<Rightarrow> (string, 'm process) outcome" where
  "to_string fw this s =
     (case refs s this of
        None \<Rightarrow> Undefined
      | Some M \<Rightarrow>
          (case deref s M of
             None \<Rightarrow> Undefined
           | Some (a, m) \<Rightarrow> Returns (Module_print fw m) s))"

subsection \<open>GetCodeGenOptLevel (lines 124--137)\<close>

text \<open>
  The C \<^verbatim>\<open>int\<close> levels are modelled as \<open>int\<close>: hlc.cpp only compares them with
  constants and never computes with them, so no overflow can occur.
\<close>

definition GetCodeGenOptLevel :: "int \<Rightarrow> CodeGenOpt_Level" where
  "GetCodeGenOptLevel OptLevel =
     (if OptLevel = 1 then CodeGenOpt_Less
      else if OptLevel = 2 then CodeGenOpt_Default
      else if OptLevel = 3 then CodeGenOpt_Aggressive
      else CodeGenOpt_None)"

subsection \<open>AddOptimizationPasses (lines 235--273)\<close>

text \<open>
  The function is embedded in two definitions: \<open>AddOptimizationPasses_Builder\<close> is the
  local \<^verbatim>\<open>Builder\<close> as lines 241--269 configure it, and \<open>AddOptimizationPasses\<close> is the
  whole function. \<open>PassManagerBuilder_new fw\<close> is a default-constructed builder: its
  \<open>LoopVectorize\<close> is whatever the framework's command line forced.
\<close>

definition AddOptimizationPasses_Builder ::
  "'m llvm \<Rightarrow> switches \<Rightarrow> nat \<Rightarrow> nat \<Rightarrow> PassManagerBuilder" where
  "AddOptimizationPasses_Builder fw sw OptLevel SizeLevel =
     (let Builder = PassManagerBuilder_new fw;
          Builder = Builder\<lparr>Builder_OptLevel := OptLevel\<rparr>;
          Builder = Builder\<lparr>Builder_SizeLevel := SizeLevel\<rparr>;
          Builder =
            (if DisableInline sw then Builder
             else if OptLevel > 1
               then Builder\<lparr>Inliner := Some (FunctionInliningPass (Some (OptLevel, SizeLevel)))\<rparr>
             else Builder\<lparr>Inliner := Some AlwaysInlinerPass\<rparr>);
          Builder = Builder\<lparr>DisableUnitAtATime := \<not> UnitAtATime sw\<rparr>;
          Builder = Builder\<lparr>DisableUnrollLoops := (OptLevel = 0)\<rparr>;
          Builder =
            (if DisableLoopVectorization sw then Builder\<lparr>LoopVectorize := False\<rparr>
             else if \<not> LoopVectorize Builder
               then Builder\<lparr>LoopVectorize := (OptLevel > 1 \<and> SizeLevel < 2)\<rparr>
             else Builder);
          Builder = Builder\<lparr>SLPVectorize :=
            (if DisableSLPVectorization sw then False else OptLevel > 1 \<and> SizeLevel < 2)\<rparr>
      in Builder)"

text \<open>
  The two pass managers are passed by reference and extended; the model returns the
  extended lists, the module pass manager first.
\<close>

definition AddOptimizationPasses ::
  "'m llvm \<Rightarrow> switches \<Rightarrow> pass list \<Rightarrow> pass list \<Rightarrow> nat \<Rightarrow> nat \<Rightarrow> pass list \<times> pass list" where
  "AddOptimizationPasses fw sw MPM FPM OptLevel SizeLevel =
     (let FPM = FPM @ [VerifierPass];
          Builder = AddOptimizationPasses_Builder fw sw OptLevel SizeLevel;
          FPM = FPM @ [FunctionPasses Builder];
          MPM = MPM @ [ModulePasses Builder]
      in (MPM, FPM))"

subsection \<open>AddStandardLinkPasses (lines 275--285)\<close>

definition AddStandardLinkPasses :: "'m llvm \<Rightarrow> switches \<Rightarrow> pass list \<Rightarrow> pass list" where
  "AddStandardLinkPasses fw sw PM =
     (let Builder = PassManagerBuilder_new fw;
          Builder = Builder\<lparr>VerifyInput := True\<rparr>;
          Builder = (if DisableOptimizations sw then Builder\<lparr>Builder_OptLevel := 0\<rparr> else Builder);
          Builder =
            (if \<not> DisableInline sw then Builder\<lparr>Inliner := Some (FunctionInliningPass None)\<rparr>
             else Builder)
      in PM @ [LTOPasses Builder])"

subsection \<open>GetTargetMachine (lines 288--307)\<close>

definition GetTargetMachine ::
  "'m llvm \<Rightarrow> string \<Rightarrow> string \<Rightarrow> string \<Rightarrow> TargetOptions \<Rightarrow> int \<Rightarrow> TargetMachine option" where
  "GetTargetMachine fw TheTriple CPUStr FeaturesStr Options OptLevel =
     (case lookupTarget fw MArch TheTriple of
        Inl Error \<Rightarrow> None
      | Inr TheTarget \<Rightarrow>
          (let tm = \<lparr>TM_Target = TheTarget, TM_Triple = TheTriple, TM_CPU = CPUStr,
                     TM_Features = FeaturesStr, TM_Options = Options,
                     TM_OptLevel = GetCodeGenOptLevel OptLevel\<rparr>
           in if createTargetMachine fw tm then Some tm else None))"

subsection \<open>Optimize (lines 309--423)\<close>

text \<open>
  Optimize declares \<^verbatim>\<open>bool OptLevelO1, OptLevelO2, OptLevelO3, StandardLinkOpts;\<close>
  without initialisers. The \<^verbatim>\<open>switch\<close> and the \<^verbatim>\<open>if (OptLevel > 0)\<close> only ever
  set them to true, and lines 390--410 read all four. A flag that was not set is read
  uninitialised: its value is indeterminate. The model takes the four indeterminate
  values as the parameter \<open>u\<close>.
\<close>

record indeterminate =
  indet_OptLevelO1 :: bool
  indet_OptLevelO2 :: bool
  indet_OptLevelO3 :: bool
  indet_StandardLinkOpts :: bool

text \<open>
  The body of Optimize is embedded in three definitions over the same parameters:
  \<open>Optimize_flags\<close> (lines 312--331), \<open>Optimize_Passes\<close> (the construction of the two
  pass managers, lines 368--376 and 386--408), and \<open>Optimize\<close> (the whole function).
\<close>

definition Optimize_flags :: "indeterminate \<Rightarrow> int \<Rightarrow> bool \<times> bool \<times> bool \<times> bool" where
  "Optimize_flags u OptLevel =
     (let OptLevelO1 = indet_OptLevelO1 u;
          OptLevelO2 = indet_OptLevelO2 u;
          OptLevelO3 = indet_OptLevelO3 u;
          StandardLinkOpts = indet_StandardLinkOpts u;
          OptLevelO1 = (if OptLevel = 1 then True else OptLevelO1);
          OptLevelO2 = (if OptLevel = 2 then True else OptLevelO2);
          OptLevelO3 = (if OptLevel = 3 then True else OptLevelO3);
          StandardLinkOpts = (if OptLevel > 0 then True else StandardLinkOpts)
      in (OptLevelO1, OptLevelO2, OptLevelO3, StandardLinkOpts))"

text \<open>
  The call \<^verbatim>\<open>AddOptimizationPasses(Passes, *FPasses, n, 0)\<close> on the pair of pass
  managers; \<^verbatim>\<open>FPasses\<close> is a \<^verbatim>\<open>unique_ptr\<close>, empty (\<open>None\<close>) until line 392 resets
  it, and \<^verbatim>\<open>*FPasses\<close> on an empty pointer is undefined (the result \<open>None\<close>).
\<close>

definition AddOptimizationPasses_deref ::
  "'m llvm \<Rightarrow> switches \<Rightarrow> nat \<Rightarrow> nat \<Rightarrow> (pass list \<times> pass list option) option
     \<Rightarrow> (pass list \<times> pass list option) option" where
  "AddOptimizationPasses_deref fw sw OptLevel SizeLevel r =
     (case r of
        None \<Rightarrow> None
      | Some (Passes, FPasses) \<Rightarrow>
          (case FPasses of
             None \<Rightarrow> None
           | Some FPM \<Rightarrow>
               (case AddOptimizationPasses fw sw Passes FPM OptLevel SizeLevel of
                  (MPM', FPM') \<Rightarrow> Some (MPM', Some FPM'))))"

definition Optimize_Passes ::
  "'m llvm \<Rightarrow> switches \<Rightarrow> indeterminate \<Rightarrow> int \<Rightarrow> int \<Rightarrow> int \<Rightarrow> string \<Rightarrow> TargetMachine option
     \<Rightarrow> (pass list \<times> pass list option) option" where
  "Optimize_Passes fw sw u OptLevel SizeLevel Verify ModuleTriple TM =
     (case Optimize_flags u OptLevel of
        (OptLevelO1, OptLevelO2, OptLevelO3, StandardLinkOpts) \<Rightarrow>
          (let Passes = [];
               TLII = \<lparr>TLII_Triple = ModuleTriple, TLII_AllFunctionsDisabled = False\<rparr>;
               TLII = TLII\<lparr>TLII_AllFunctionsDisabled := True\<rparr>;
               Passes = Passes @ [TargetLibraryInfoWrapperPass TLII];
               Passes = Passes @ [TargetTransformInfoWrapperPass TM];
               FPasses =
                 (if OptLevelO1 \<or> OptLevelO2 \<or> OptLevelO3
                  then Some [TargetTransformInfoWrapperPass TM] else None);
               Passes = (if StandardLinkOpts then AddStandardLinkPasses fw sw Passes else Passes);
               r = Some (Passes, FPasses);
               r = (if OptLevelO1 then AddOptimizationPasses_deref fw sw 1 0 r else r);
               r = (if OptLevelO2 then AddOptimizationPasses_deref fw sw 2 0 r else r);
               r = (if OptLevelO3 then AddOptimizationPasses_deref fw sw 3 0 r else r)
           in r))"

text \<open>The loop \<^verbatim>\<open>for (Function &F : *M) FPasses->run(F);\<close> of lines 413--414.\<close>

fun FPasses_run_each :: "'m llvm \<Rightarrow> pass list \<Rightarrow> string list \<Rightarrow> 'm \<Rightarrow> 'm fw_result" where
  "FPasses_run_each fw FPM [] m = Done m"
| "FPasses_run_each fw FPM (F # Fs) m =
     (case FPM_run fw FPM F m of
        Fatal \<Rightarrow> Fatal
      | Done m' \<Rightarrow> FPasses_run_each fw FPM Fs m')"

text \<open>
  Lines 410--416: set-up, the loop over the functions, tear-down; \<open>None\<close> is the
  undefined \<^verbatim>\<open>FPasses->\<close> on an empty pointer.
\<close>

definition Optimize_FPasses ::
  "'m llvm \<Rightarrow> bool \<times> bool \<times> bool \<times> bool \<Rightarrow> pass list option \<Rightarrow> 'm \<Rightarrow> 'm fw_result option" where
  "Optimize_FPasses fw flags FPasses m =
     (case flags of
        (OptLevelO1, OptLevelO2, OptLevelO3, StandardLinkOpts) \<Rightarrow>
          if OptLevelO1 \<or> OptLevelO2 \<or> OptLevelO3
          then (case FPasses of
                  None \<Rightarrow> None
                | Some FPM \<Rightarrow>
                    Some
                      (case FPM_doInitialization fw FPM m of
                         Fatal \<Rightarrow> Fatal
                       | Done m \<Rightarrow>
                           (case FPasses_run_each fw FPM (Module_functions fw m) m of
                              Fatal \<Rightarrow> Fatal
                            | Done m \<Rightarrow> FPM_doFinalization fw FPM m)))
          else Some (Done m))"

text \<open>
  \<open>M\<close> is the \<^verbatim>\<open>llvm::Module*\<close> argument; the module it points to is changed in place.
  \<^verbatim>\<open>exit(1)\<close> leaves the store as it is at that point.
\<close>

definition Optimize ::
  "'m llvm \<Rightarrow> switches \<Rightarrow> indeterminate \<Rightarrow> addr option \<Rightarrow> int \<Rightarrow> int \<Rightarrow> int \<Rightarrow> 'm process
     \<Rightarrow> (unit, 'm process) outcome" where
  "Optimize fw sw u M OptLevel SizeLevel Verify s =
     (case deref s M of
        None \<Rightarrow> Undefined
      | Some (a, m) \<Rightarrow>
          (let m = (if StripDebug sw then StripDebugInfo fw m else m) in
           case verifyModule fw m of
             Some diag \<Rightarrow>
               Exits 1 (s\<lparr>modules := (modules s)(a \<mapsto> m),
                          errs := errs s @ diag @ ''error: input module is broken!'' @ [CHR 0x0A]\<rparr>)
           | None \<Rightarrow>
               (let m = setTargetTriple fw (Triple_normalize fw ''amdgcn--amdhsa'') m;
                    ModuleTriple = getTargetTriple fw m;
                    CPUStr = ''fiji'';
                    FeaturesStr = '''';
                    Options = \<lparr>FromCodeGenFlags = False, AsmVerbose = False\<rparr>;
                    Machine =
                      (if Triple_getArch fw ModuleTriple \<noteq> 0
                       then GetTargetMachine fw ModuleTriple CPUStr FeaturesStr Options OptLevel
                       else None);
                    m = setFunctionAttributes fw CPUStr FeaturesStr m;
                    m = (if DataLayout_isDefault fw m then setDataLayout fw '''' m else m)
                in case Optimize_Passes fw sw u OptLevel SizeLevel Verify ModuleTriple Machine of
                     None \<Rightarrow> Undefined
                   | Some (Passes, FPasses) \<Rightarrow>
                       (case Optimize_FPasses fw (Optimize_flags u OptLevel) FPasses m of
                          None \<Rightarrow> Undefined
                        | Some Fatal \<Rightarrow> Aborts
                        | Some (Done m) \<Rightarrow>
                            (let Passes = Passes @ [VerifierPass] in
                             case PM_run fw Passes m of
                               Fatal \<Rightarrow> Aborts
                             | Done (m, out) \<Rightarrow>
                                 Returns () (s\<lparr>modules := (modules s)(a \<mapsto> m)\<rparr>))))))"

subsection \<open>CompileModule (lines 436--526)\<close>

text \<open>
  \<open>mod'\<close> is the module the \<^verbatim>\<open>unique_ptr\<close> argument owns: no other pointer reaches
  it and it is deleted when the function ends, so it is a value of the model, not an
  object of the store. \<open>os\<close> is what the string stream holds; the result is the status
  and the stream's content. The \<^verbatim>\<open>assert\<close> on the target machine ends the process when
  it fails (the function is read as compiled with assertions; without them the next use
  of the null machine would be undefined). The module pointer is never null here, so the
  second \<^verbatim>\<open>assert\<close> always passes. Lines 488--489 change the local \<^verbatim>\<open>Options\<close> after the machine was created
  from it and have no effect.
\<close>

definition CompileModule ::
  "'m llvm \<Rightarrow> 'm \<Rightarrow> string \<Rightarrow> bool \<Rightarrow> int \<Rightarrow> 'm process \<Rightarrow> (int \<times> string, 'm process) outcome" where
  "CompileModule fw mod' os emitBRIG OptLevel s =
     (let TheTriple = Triple_normalize fw ''amdgcn--amdhsa'' in
      case lookupTarget fw MArch TheTriple of
        Inl Error \<Rightarrow> Returns (0, os) (s\<lparr>errs := errs s @ Error\<rparr>)
      | Inr TheTarget \<Rightarrow>
          (let CPUStr = ''fiji'';
               FeaturesStr = ''+promote-alloca,+fp64-denormals,+flat-for-global,'';
               OLvl =
                 (if OptLevel = 0 then CodeGenOpt_None
                  else if OptLevel = 1 then CodeGenOpt_Less
                  else if OptLevel = 2 then CodeGenOpt_Default
                  else if OptLevel = 3 then CodeGenOpt_Aggressive
                  else CodeGenOpt_Default);
               Options = \<lparr>FromCodeGenFlags = True, AsmVerbose = False\<rparr>;
               Options = Options\<lparr>AsmVerbose := True\<rparr>;
               Target = \<lparr>TM_Target = TheTarget, TM_Triple = TheTriple, TM_CPU = CPUStr,
                         TM_Features = FeaturesStr, TM_Options = Options, TM_OptLevel = OLvl\<rparr>
           in if \<not> createTargetMachine fw Target then Aborts
              else
                (let PM = [];
                     TLII = \<lparr>TLII_Triple = getTargetTriple fw mod',
                              TLII_AllFunctionsDisabled = False\<rparr>;
                     TLII = TLII\<lparr>TLII_AllFunctionsDisabled := True\<rparr>;
                     PM = PM @ [TargetLibraryInfoWrapperPass TLII];
                     mod' = setDataLayout fw (createDataLayout fw Target) mod';
                     mod' = setFunctionAttributes fw CPUStr FeaturesStr mod';
                     FileType = (if emitBRIG then CGFT_ObjectFile else CGFT_AssemblyFile);
                     Verify = True
                 in if addPassesToEmitFile fw Target FileType
                    then Returns (1, os)
                           (s\<lparr>errs := errs s @
                              ''target does not support generation of this file type!'' @ [CHR 0x0A]\<rparr>)
                    else
                      (case PM_run fw (PM @ [EmitFilePasses Target FileType Verify]) mod' of
                         Fatal \<Rightarrow> Aborts
                       | Done (mod', out) \<Rightarrow> Returns (0, os @ out) s))))"

subsection \<open>The C boundary (lines 549--642)\<close>

text \<open>\<^verbatim>\<open>strdup\<close> copies up to the first NUL character.\<close>

definition HLC_CreateString :: "string \<Rightarrow> string" where
  "HLC_CreateString str = takeWhile (\<lambda>c. c \<noteq> CHR 0x00) str"

text \<open>\<^verbatim>\<open>M->destroy(); delete M;\<close> The second statement frees the \<^verbatim>\<open>ModuleRef\<close> itself.\<close>

definition HLC_ModuleDestroy :: "addr \<Rightarrow> 'm process \<Rightarrow> (unit, 'm process) outcome" where
  "HLC_ModuleDestroy M s =
     (case destroy M s of
        Returns x s' \<Rightarrow>
          (case refs s' M of
             None \<Rightarrow> Undefined
           | Some p \<Rightarrow> Returns () (s'\<lparr>refs := (refs s')(M := None)\<rparr>))
      | Exits n s' \<Rightarrow> Exits n s'
      | Aborts \<Rightarrow> Aborts
      | Undefined \<Rightarrow> Undefined)"

definition HLC_ModuleOptimize ::
  "'m llvm \<Rightarrow> switches \<Rightarrow> indeterminate \<Rightarrow> addr \<Rightarrow> int \<Rightarrow> int \<Rightarrow> int \<Rightarrow> 'm process
     \<Rightarrow> (int, 'm process) outcome" where
  "HLC_ModuleOptimize fw sw u M OptLevel SizeLevel Verify s =
     (if OptLevel < 0 \<and> OptLevel > 3 then Returns 0 s
      else if SizeLevel < 0 \<and> SizeLevel > 2 then Returns 0 s
      else
        (case getModule M s of
           Returns mref s \<Rightarrow>
             (case Optimize fw sw u mref OptLevel SizeLevel Verify s of
                Returns x s \<Rightarrow> Returns 1 s
              | Exits n s \<Rightarrow> Exits n s
              | Aborts \<Rightarrow> Aborts
              | Undefined \<Rightarrow> Undefined)
         | Exits n s \<Rightarrow> Exits n s
         | Aborts \<Rightarrow> Aborts
         | Undefined \<Rightarrow> Undefined))"

text \<open>
  \<^verbatim>\<open>CloneModule(ref)\<close> reads through \<^verbatim>\<open>ref\<close>, so a null or dangling module pointer
  is undefined behaviour. The clone is owned by a \<^verbatim>\<open>unique_ptr\<close> and is a value of the
  model. \<^verbatim>\<open>return !status;\<close> turns the linker's error flag into 0 and its absence
  into 1.
\<close>

definition HLC_ModuleLinkIn ::
  "'m llvm \<Rightarrow> addr \<Rightarrow> addr \<Rightarrow> 'm process \<Rightarrow> (int, 'm process) outcome" where
  "HLC_ModuleLinkIn fw Dst Src s =
     (case refs s Src of
        None \<Rightarrow> Undefined
      | Some ref \<Rightarrow>
          (case deref s ref of
             None \<Rightarrow> Undefined
           | Some (sa, sm) \<Rightarrow>
               (let sM = CloneModule fw sm in
                case refs s Dst of
                  None \<Rightarrow> Undefined
                | Some dref \<Rightarrow>
                    (case deref s dref of
                       None \<Rightarrow> Undefined
                     | Some (da, dm) \<Rightarrow>
                         if verifyModule fw dm \<noteq> None then Returns 0 s
                         else if verifyModule fw sm \<noteq> None then Returns 0 s
                         else
                           (case linkModules fw dm sM of
                              (status, dm') \<Rightarrow>
                                Returns (if status then 0 else 1)
                                  (s\<lparr>modules := (modules s)(da \<mapsto> dm')\<rparr>))))))"

text \<open>
  The two emit functions give the return value and what was stored through
  \<^verbatim>\<open>output\<close> (\<open>None\<close> when nothing was stored).
\<close>

definition HLC_ModuleEmitHSAIL ::
  "'m llvm \<Rightarrow> addr \<Rightarrow> int \<Rightarrow> 'm process \<Rightarrow> (int \<times> string option, 'm process) outcome" where
  "HLC_ModuleEmitHSAIL fw M OptLevel s =
     (case refs s M of
        None \<Rightarrow> Undefined
      | Some ref \<Rightarrow>
          (case deref s ref of
             None \<Rightarrow> Undefined
           | Some (a, m) \<Rightarrow>
               (let sM = CloneModule fw m in
                if OptLevel < 0 \<and> OptLevel > 3 then Returns (0, None) s
                else
                  (case CompileModule fw sM [] False OptLevel s of
                     Returns (status, buf) s \<Rightarrow>
                       if status \<noteq> 0 then Returns (0, None) s
                       else Returns (1, Some (HLC_CreateString buf)) s
                   | Exits n s \<Rightarrow> Exits n s
                   | Aborts \<Rightarrow> Aborts
                   | Undefined \<Rightarrow> Undefined))))"

definition HLC_ModuleEmitBRIG ::
  "'m llvm \<Rightarrow> addr \<Rightarrow> int \<Rightarrow> 'm process \<Rightarrow> (nat \<times> string option, 'm process) outcome" where
  "HLC_ModuleEmitBRIG fw M OptLevel s =
     (case refs s M of
        None \<Rightarrow> Undefined
      | Some ref \<Rightarrow>
          (case deref s ref of
             None \<Rightarrow> Undefined
           | Some (a, m) \<Rightarrow>
               (let sM = CloneModule fw m in
                if OptLevel < 0 \<and> OptLevel > 3 then Returns (0, None) s
                else
                  (case CompileModule fw sM [] True OptLevel s of
                     Returns (status, buf) s \<Rightarrow>
                       if status \<noteq> 0 then Returns (0, None) s
                       else Returns (length buf, Some buf) s
                   | Exits n s \<Rightarrow> Exits n s
                   | Aborts \<Rightarrow> Aborts
                   | Undefined \<Rightarrow> Undefined))))"

subsection \<open>A concrete framework for evaluating the definitions\<close>

text \<open>
  The closed theorems below evaluate the definitions above on a small framework whose
  modules record what was done to them: \<open>tm_broken\<close> is what its verifier reports,
  \<open>tm_runs\<close> lists the pass lists that were run on the module, in order (one entry
  for each run of the function pass manager on a function, one for each run of the
  module pass manager). Every module has one function, \<open>f\<close>. The builder's defaults
  are those of a framework whose command line forces nothing.
\<close>

datatype trace_module = TraceModule (tm_broken: bool) (tm_runs: "pass list list")

definition trace_builder :: PassManagerBuilder where
  "trace_builder =
     \<lparr>Builder_OptLevel = 2, Builder_SizeLevel = 0, Inliner = None,
      DisableUnitAtATime = False, DisableUnrollLoops = False, LoopVectorize = False,
      SLPVectorize = False, VerifyInput = False\<rparr>"

definition trace_llvm :: "trace_module llvm" where
  "trace_llvm =
     \<lparr>StripDebugInfo = (\<lambda>m. m),
      verifyModule = (\<lambda>m. if tm_broken m then Some ''broken'' else None),
      Triple_normalize = (\<lambda>t. t),
      Triple_getArch = (\<lambda>t. 1),
      lookupTarget = (\<lambda>arch t. Inr arch),
      createTargetMachine = (\<lambda>tm. True),
      createDataLayout = (\<lambda>tm. ''e''),
      setTargetTriple = (\<lambda>t m. m),
      getTargetTriple = (\<lambda>m. ''amdgcn--amdhsa''),
      setFunctionAttributes = (\<lambda>c f m. m),
      DataLayout_isDefault = (\<lambda>m. False),
      setDataLayout = (\<lambda>d m. m),
      PassManagerBuilder_new = trace_builder,
      Module_functions = (\<lambda>m. [''f'']),
      FPM_doInitialization = (\<lambda>ps m. Done m),
      FPM_run = (\<lambda>ps f m. Done (TraceModule (tm_broken m) (tm_runs m @ [ps]))),
      FPM_doFinalization = (\<lambda>ps m. Done m),
      PM_run = (\<lambda>ps m. Done (TraceModule (tm_broken m) (tm_runs m @ [ps]), ''code'')),
      addPassesToEmitFile = (\<lambda>tm ft. False),
      CloneModule = (\<lambda>m. m),
      linkModules = (\<lambda>d s. (False, TraceModule (tm_broken d) (tm_runs d @ tm_runs s))),
      Module_print = (\<lambda>m. if tm_broken m then ''broken'' else ''module'')\<rparr>"

text \<open>The same framework built without the amdgcn target: the lookup fails.\<close>

definition no_target_llvm :: "trace_module llvm" where
  "no_target_llvm = trace_llvm\<lparr>lookupTarget := (\<lambda>arch t. Inl ''no target'')\<rparr>"

text \<open>
  A process with one handle, at address 0, whose \<^verbatim>\<open>ModuleRef\<close> points to the module
  \<open>m\<close> at address 0; and one with a second handle, at address 1, for the module \<open>m'\<close>
  at address 1.
\<close>

definition one_module :: "'m \<Rightarrow> 'm process" where
  "one_module m = \<lparr>modules = [0 \<mapsto> m], refs = [0 \<mapsto> Some 0], errs = ''''\<rparr>"

definition two_modules :: "'m \<Rightarrow> 'm \<Rightarrow> 'm process" where
  "two_modules m m' =
     \<lparr>modules = [0 \<mapsto> m, 1 \<mapsto> m'], refs = [0 \<mapsto> Some 0, 1 \<mapsto> Some 1], errs = ''''\<rparr>"

text \<open>Indeterminate values that all happen to be false.\<close>

definition all_false :: indeterminate where
  "all_false =
     \<lparr>indet_OptLevelO1 = False, indet_OptLevelO2 = False, indet_OptLevelO3 = False,
      indet_StandardLinkOpts = False\<rparr>"

section \<open>Theorems\<close>

subsection \<open>Shared facts\<close>

text \<open>
  The two range checks of the boundary layer ask for a number that is both negative and
  above 3 (or 2).
\<close>

lemma OptLevel_check_never_holds: "((OptLevel :: int) < 0 \<and> OptLevel > 3) = False"
  by arith

lemma SizeLevel_check_never_holds: "((SizeLevel :: int) < 0 \<and> SizeLevel > 2) = False"
  by arith

text \<open>Neither \<open>SizeLevel\<close> nor \<open>Verify\<close> is read by the body of Optimize.\<close>

lemma Optimize_Passes_ignores_SizeLevel:
  "Optimize_Passes fw sw u OptLevel SizeLevel Verify T TM =
   Optimize_Passes fw sw u OptLevel SizeLevel' Verify' T TM"
  by (simp add: Optimize_Passes_def)

lemma Optimize_ignores_SizeLevel:
  "Optimize fw sw u M OptLevel SizeLevel Verify s = Optimize fw sw u M OptLevel SizeLevel' Verify' s"
  unfolding Optimize_def
  by (simp only: Optimize_Passes_ignores_SizeLevel [of fw sw u OptLevel SizeLevel Verify _ _ SizeLevel' Verify'])

lemma HLC_ModuleOptimize_dispatch:
  "HLC_ModuleOptimize fw sw u M OptLevel SizeLevel Verify s =
     (case getModule M s of
        Returns mref s \<Rightarrow>
          (case Optimize fw sw u mref OptLevel SizeLevel Verify s of
             Returns x s \<Rightarrow> Returns 1 s
           | Exits n s \<Rightarrow> Exits n s
           | Aborts \<Rightarrow> Aborts
           | Undefined \<Rightarrow> Undefined)
      | Exits n s \<Rightarrow> Exits n s
      | Aborts \<Rightarrow> Aborts
      | Undefined \<Rightarrow> Undefined)"
  unfolding HLC_ModuleOptimize_def
  by (simp only: OptLevel_check_never_holds SizeLevel_check_never_holds if_False)

text \<open>
  Once the target is found, CompileModule is a chain of three decisions: the assertion
  on the machine, the file-type check, the run of the pass manager.
\<close>

lemma CompileModule_found:
  assumes "lookupTarget fw MArch (Triple_normalize fw ''amdgcn--amdhsa'') = Inr TheTarget"
  shows "\<exists>Target FileType PM m.
    CompileModule fw mod' os emitBRIG OptLevel s =
      (if \<not> createTargetMachine fw Target then Aborts
       else if addPassesToEmitFile fw Target FileType
         then Returns (1, os)
                (s\<lparr>errs := errs s @
                   ''target does not support generation of this file type!'' @ [CHR 0x0A]\<rparr>)
         else (case PM_run fw PM m of
                 Fatal \<Rightarrow> Aborts
               | Done (mod', out) \<Rightarrow> Returns (0, os @ out) s))"
  unfolding CompileModule_def
  apply (simp only: assms sum.case Let_def)
  apply (intro exI)
  apply (rule refl)
  done

text \<open>CompileModule writes to the error stream at most: the store is not touched.\<close>

lemma CompileModule_frame:
  "(case CompileModule fw mod' os emitBRIG OptLevel s of
      Returns r s' \<Rightarrow> modules s' = modules s \<and> refs s' = refs s
    | Exits n s' \<Rightarrow> False
    | Aborts \<Rightarrow> True
    | Undefined \<Rightarrow> False)"
proof (cases "lookupTarget fw MArch (Triple_normalize fw ''amdgcn--amdhsa'')")
  case (Inl Error)
  then show ?thesis
    by (simp add: CompileModule_def split del: if_split)
next
  case (Inr TheTarget)
  from CompileModule_found [OF Inr, of mod' os emitBRIG OptLevel s]
  obtain Target FileType PM m where
    "CompileModule fw mod' os emitBRIG OptLevel s =
      (if \<not> createTargetMachine fw Target then Aborts
       else if addPassesToEmitFile fw Target FileType
         then Returns (1, os)
                (s\<lparr>errs := errs s @
                   ''target does not support generation of this file type!'' @ [CHR 0x0A]\<rparr>)
         else (case PM_run fw PM m of
                 Fatal \<Rightarrow> Aborts
               | Done (mod', out) \<Rightarrow> Returns (0, os @ out) s))"
    by blast
  then show ?thesis
    by (simp split: fw_result.split prod.split)
qed

lemma to_string_frame:
  "modules s' = modules s \<Longrightarrow> refs s' = refs s \<Longrightarrow> refs s M = Some (Some a) \<Longrightarrow>
   modules s a = Some m \<Longrightarrow> to_string fw M s' = Returns (Module_print fw m) s'"
  by (simp add: to_string_def deref_def)

text \<open>
  The builder that AddOptimizationPasses configures: its levels are the arguments, and
  its two vectorisation flags follow lines 260--269.
\<close>

lemma Builder_levels:
  "Builder_OptLevel (AddOptimizationPasses_Builder fw sw OptLevel SizeLevel) = OptLevel"
  "Builder_SizeLevel (AddOptimizationPasses_Builder fw sw OptLevel SizeLevel) = SizeLevel"
  by (simp_all add: AddOptimizationPasses_Builder_def Let_def)

lemma Builder_LoopVectorize:
  "LoopVectorize (AddOptimizationPasses_Builder fw sw OptLevel SizeLevel) =
     (\<not> DisableLoopVectorization sw \<and>
      (LoopVectorize (PassManagerBuilder_new fw) \<or> (OptLevel > 1 \<and> SizeLevel < 2)))"
  by (simp add: AddOptimizationPasses_Builder_def Let_def)

lemma Builder_SLPVectorize:
  "SLPVectorize (AddOptimizationPasses_Builder fw sw OptLevel SizeLevel) =
     (\<not> DisableSLPVectorization sw \<and> OptLevel > 1 \<and> SizeLevel < 2)"
  by (simp add: AddOptimizationPasses_Builder_def Let_def)

lemma Optimize_Passes_requested_bundle:
  assumes "OptLevel = 1 \<or> OptLevel = 2 \<or> OptLevel = 3"
  shows "\<exists>Passes FPM.
     Optimize_Passes fw sw u OptLevel SizeLevel Verify T TM = Some (Passes, Some FPM) \<and>
     ModulePasses (AddOptimizationPasses_Builder fw sw (nat OptLevel) 0) \<in> set Passes \<and>
     FunctionPasses (AddOptimizationPasses_Builder fw sw (nat OptLevel) 0) \<in> set FPM \<and>
     (\<forall>B. (ModulePasses B \<in> set Passes \<or> FunctionPasses B \<in> set FPM) \<and>
          Builder_OptLevel B = nat OptLevel \<longrightarrow>
          B = AddOptimizationPasses_Builder fw sw (nat OptLevel) 0)"
  using assms
  by (cases "indet_OptLevelO1 u"; cases "indet_OptLevelO2 u"; cases "indet_OptLevelO3 u")
    (auto simp: Optimize_Passes_def Optimize_flags_def AddOptimizationPasses_deref_def
      AddOptimizationPasses_def AddStandardLinkPasses_def Let_def Builder_levels)

text \<open>
  When the target lookup fails, CompileModule prints the error and returns 0, the status
  its callers read as success (line 454).
\<close>

lemma CompileModule_target_not_found:
  assumes "lookupTarget fw MArch (Triple_normalize fw ''amdgcn--amdhsa'') = Inl Error"
  shows "CompileModule fw mod' os emitBRIG OptLevel s = Returns (0, os) (s\<lparr>errs := errs s @ Error\<rparr>)"
  using assms by (simp add: CompileModule_def split del: if_split)

text \<open>At level 0 the \<^verbatim>\<open>switch\<close> sets nothing: all four flags keep their indeterminate values.\<close>

lemma Optimize_flags_level_0:
  "Optimize_flags u 0 =
     (indet_OptLevelO1 u, indet_OptLevelO2 u, indet_OptLevelO3 u, indet_StandardLinkOpts u)"
  by (simp add: Optimize_flags_def)

text \<open>
  A run at level 0 in which the four uninitialised flags happen to read as false: the
  module pass manager is run once, on the library-info pass, the target-info pass and
  the verifier, and the function pass manager is not run.
\<close>

lemma Optimize_level_0_flags_false:
  "Optimize trace_llvm initial_switches all_false (Some 0) 0 0 0 (one_module (TraceModule False [])) =
     Returns ()
       \<lparr>modules = [0 \<mapsto> TraceModule False
          [[TargetLibraryInfoWrapperPass
              \<lparr>TLII_Triple = ''amdgcn--amdhsa'', TLII_AllFunctionsDisabled = True\<rparr>,
            TargetTransformInfoWrapperPass
              (Some \<lparr>TM_Target = ''amdgcn'', TM_Triple = ''amdgcn--amdhsa'', TM_CPU = ''fiji'',
                      TM_Features = '''',
                      TM_Options = \<lparr>FromCodeGenFlags = False, AsmVerbose = False\<rparr>,
                      TM_OptLevel = CodeGenOpt_None\<rparr>),
            VerifierPass]]],
        refs = [0 \<mapsto> Some 0], errs = ''''\<rparr>"
  by (simp add: Optimize_def Optimize_Passes_def Optimize_FPasses_def Optimize_flags_def
      AddOptimizationPasses_deref_def AddOptimizationPasses_def AddOptimizationPasses_Builder_def
      AddStandardLinkPasses_def GetTargetMachine_def GetCodeGenOptLevel_def MArch_def
      deref_def one_module_def trace_llvm_def trace_builder_def initial_switches_def
      all_false_def Let_def)

subsection \<open>The claims\<close>

text \<open>
  C1. If the module that Optimize is given fails the verification that precedes pass
  construction (line 340; it is run on the module after the optional debug-info strip of
  line 334), the process ends with \<^verbatim>\<open>exit(1)\<close>, after the verifier's diagnostics and the
  line "error: input module is broken!" were written to the error stream. This holds for
  every module and every OptLevel, SizeLevel and Verify, for Optimize and for
  HLC_ModuleOptimize, which therefore returns no failure value to its caller.
\<close>

theorem Optimize_broken_input_exits:
  assumes "refs s h = Some M"
    and "deref s M = Some (a, m)"
    and "verifyModule fw (if StripDebug sw then StripDebugInfo fw m else m) = Some diag"
  shows "Optimize fw sw u M OptLevel SizeLevel Verify s =
           Exits 1 (s\<lparr>modules := (modules s)(a \<mapsto> (if StripDebug sw then StripDebugInfo fw m else m)),
                      errs := errs s @ diag @ ''error: input module is broken!'' @ [CHR 0x0A]\<rparr>) \<and>
         HLC_ModuleOptimize fw sw u h OptLevel SizeLevel Verify s =
           Exits 1 (s\<lparr>modules := (modules s)(a \<mapsto> (if StripDebug sw then StripDebugInfo fw m else m)),
                      errs := errs s @ diag @ ''error: input module is broken!'' @ [CHR 0x0A]\<rparr>)"
proof -
  have opt: "Optimize fw sw u M OptLevel SizeLevel Verify s =
           Exits 1 (s\<lparr>modules := (modules s)(a \<mapsto> (if StripDebug sw then StripDebugInfo fw m else m)),
                      errs := errs s @ diag @ ''error: input module is broken!'' @ [CHR 0x0A]\<rparr>)"
    using assms(2,3) by (simp add: Optimize_def Let_def)
  show ?thesis
    using assms(1) opt by (simp add: HLC_ModuleOptimize_dispatch getModule_def)
qed

theorem Optimize_broken_input_exits_witness:
  "Optimize trace_llvm initial_switches all_false (Some 0) 3 1 0 (one_module (TraceModule True [])) =
     Exits 1 \<lparr>modules = [0 \<mapsto> TraceModule True []], refs = [0 \<mapsto> Some 0],
              errs = ''brokenerror: input module is broken!'' @ [CHR 0x0A]\<rparr> \<and>
   HLC_ModuleOptimize trace_llvm initial_switches all_false 0 3 1 0 (one_module (TraceModule True [])) =
     Exits 1 \<lparr>modules = [0 \<mapsto> TraceModule True []], refs = [0 \<mapsto> Some 0],
              errs = ''brokenerror: input module is broken!'' @ [CHR 0x0A]\<rparr>"
  using Optimize_broken_input_exits [of "one_module (TraceModule True [])" 0 "Some 0" 0
      "TraceModule True []" trace_llvm initial_switches "''broken''" all_false 3 1 0]
  by (simp add: one_module_def deref_def trace_llvm_def initial_switches_def)

text \<open>
  C4. For every integer OptLevel and SizeLevel the two range conditions of
  HLC_ModuleOptimize (lines 583--584) are false, so its early \<^verbatim>\<open>return 0\<close> is never
  taken: the function never returns 0, and it is the dispatch to Optimize followed by
  \<^verbatim>\<open>return 1\<close>, whatever the levels are.
\<close>

theorem HLC_ModuleOptimize_range_check_dead:
  "\<not> (OptLevel < 0 \<and> OptLevel > 3) \<and> \<not> (SizeLevel < 0 \<and> SizeLevel > 2) \<and>
   HLC_ModuleOptimize fw sw u M OptLevel SizeLevel Verify s \<noteq> Returns 0 s' \<and>
   HLC_ModuleOptimize fw sw u M OptLevel SizeLevel Verify s =
     (case getModule M s of
        Returns mref s \<Rightarrow>
          (case Optimize fw sw u mref OptLevel SizeLevel Verify s of
             Returns x s \<Rightarrow> Returns 1 s
           | Exits n s \<Rightarrow> Exits n s
           | Aborts \<Rightarrow> Aborts
           | Undefined \<Rightarrow> Undefined)
      | Exits n s \<Rightarrow> Exits n s
      | Aborts \<Rightarrow> Aborts
      | Undefined \<Rightarrow> Undefined)"
proof -
  have "HLC_ModuleOptimize fw sw u M OptLevel SizeLevel Verify s \<noteq> Returns 0 s'"
    by (simp add: HLC_ModuleOptimize_dispatch split: outcome.split)
  then show ?thesis
    using HLC_ModuleOptimize_dispatch [of fw sw u M OptLevel SizeLevel Verify s]
      OptLevel_check_never_holds [of OptLevel] SizeLevel_check_never_holds [of SizeLevel]
    by blast
qed

text \<open>
  C6. Two calls of Optimize that differ only in the size level, started in the same
  state (the same store, switches and indeterminate values of the uninitialised flags),
  have the same outcome: the same resulting store and the same result. The same holds
  at the boundary, for HLC_ModuleOptimize.
\<close>

theorem Optimize_independent_of_SizeLevel:
  "Optimize fw sw u M OptLevel S1 Verify s = Optimize fw sw u M OptLevel S2 Verify s \<and>
   HLC_ModuleOptimize fw sw u h OptLevel S1 Verify s =
   HLC_ModuleOptimize fw sw u h OptLevel S2 Verify s"
  by (simp add: HLC_ModuleOptimize_dispatch
      Optimize_ignores_SizeLevel [of fw sw u _ OptLevel S1 Verify _ S2 Verify]
      cong: outcome.case_cong)

text \<open>
  C7. For live handles \<open>Dst\<close> and \<open>Src\<close>, HLC_ModuleLinkIn verifies the module of
  \<open>Dst\<close> and the module of \<open>Src\<close>, each on its own, before it links: if either is
  broken it returns 0 and the state, the module of \<open>Dst\<close> included, is exactly the state
  before the call. Only when both verify is the clone of the source linked into the
  destination.
\<close>

theorem HLC_ModuleLinkIn_verifies_first:
  assumes "refs s Dst = Some (Some da)" and "modules s da = Some dm"
    and "refs s Src = Some (Some sa)" and "modules s sa = Some sm"
  shows "HLC_ModuleLinkIn fw Dst Src s =
           (if verifyModule fw dm \<noteq> None \<or> verifyModule fw sm \<noteq> None then Returns 0 s
            else Returns (if fst (linkModules fw dm (CloneModule fw sm)) then 0 else 1)
                   (s\<lparr>modules := (modules s)(da \<mapsto> snd (linkModules fw dm (CloneModule fw sm)))\<rparr>))"
  using assms
  by (simp add: HLC_ModuleLinkIn_def deref_def Let_def split: prod.split)

theorem HLC_ModuleLinkIn_verifies_first_witness:
  "HLC_ModuleLinkIn trace_llvm 0 1 (two_modules (TraceModule True []) (TraceModule False [])) =
     Returns 0 (two_modules (TraceModule True []) (TraceModule False [])) \<and>
   HLC_ModuleLinkIn trace_llvm 0 1 (two_modules (TraceModule False []) (TraceModule True [])) =
     Returns 0 (two_modules (TraceModule False []) (TraceModule True [])) \<and>
   HLC_ModuleLinkIn trace_llvm 0 1 (two_modules (TraceModule False [[]]) (TraceModule False [[VerifierPass]])) =
     Returns 1 (two_modules (TraceModule False [[], [VerifierPass]]) (TraceModule False [[VerifierPass]]))"
  using
    HLC_ModuleLinkIn_verifies_first [of "two_modules (TraceModule True []) (TraceModule False [])"
      0 0 "TraceModule True []" 1 1 "TraceModule False []" trace_llvm]
    HLC_ModuleLinkIn_verifies_first [of "two_modules (TraceModule False []) (TraceModule True [])"
      0 0 "TraceModule False []" 1 1 "TraceModule True []" trace_llvm]
    HLC_ModuleLinkIn_verifies_first [of "two_modules (TraceModule False [[]]) (TraceModule False [[VerifierPass]])"
      0 0 "TraceModule False [[]]" 1 1 "TraceModule False [[VerifierPass]]" trace_llvm]
  by (simp add: two_modules_def trace_llvm_def fun_upd_twist)

text \<open>
  C8. For a live handle, HLC_ModuleEmitHSAIL and HLC_ModuleEmitBRIG compile a clone and
  never change the caller's module. Each call either ends the process abnormally (the
  assertion on the target machine, a fatal error of the framework) or returns, with
  success or with failure, in a state whose modules and handles are those before the
  call; so \<open>to_string\<close> on the handle gives the same text before and after.
\<close>

theorem emit_leaves_module_unchanged:
  assumes "refs s M = Some (Some a)" and "modules s a = Some m"
  shows "to_string fw M s = Returns (Module_print fw m) s \<and>
         (case HLC_ModuleEmitHSAIL fw M OptLevel s of
            Returns r s' \<Rightarrow>
              modules s' = modules s \<and> refs s' = refs s \<and>
              to_string fw M s' = Returns (Module_print fw m) s'
          | Exits n s' \<Rightarrow> False
          | Aborts \<Rightarrow> True
          | Undefined \<Rightarrow> False) \<and>
         (case HLC_ModuleEmitBRIG fw M OptLevel s of
            Returns r s' \<Rightarrow>
              modules s' = modules s \<and> refs s' = refs s \<and>
              to_string fw M s' = Returns (Module_print fw m) s'
          | Exits n s' \<Rightarrow> False
          | Aborts \<Rightarrow> True
          | Undefined \<Rightarrow> False)"
proof (intro conjI)
  show "to_string fw M s = Returns (Module_print fw m) s"
    using assms by (simp add: to_string_def deref_def)
next
  have eq: "HLC_ModuleEmitHSAIL fw M OptLevel s =
      (case CompileModule fw (CloneModule fw m) [] False OptLevel s of
         Returns (status, buf) s \<Rightarrow>
           if status \<noteq> 0 then Returns (0, None) s
           else Returns (1, Some (HLC_CreateString buf)) s
       | Exits n s \<Rightarrow> Exits n s
       | Aborts \<Rightarrow> Aborts
       | Undefined \<Rightarrow> Undefined)"
    using assms by (simp add: HLC_ModuleEmitHSAIL_def deref_def OptLevel_check_never_holds)
  show "case HLC_ModuleEmitHSAIL fw M OptLevel s of
          Returns r s' \<Rightarrow>
            modules s' = modules s \<and> refs s' = refs s \<and>
            to_string fw M s' = Returns (Module_print fw m) s'
        | Exits n s' \<Rightarrow> False
        | Aborts \<Rightarrow> True
        | Undefined \<Rightarrow> False"
    using CompileModule_frame [where fw = fw and mod' = "CloneModule fw m" and os = "[]"
        and emitBRIG = False and OptLevel = OptLevel and s = s] assms
    by (auto simp: eq to_string_frame split: outcome.splits prod.splits)
next
  have eq: "HLC_ModuleEmitBRIG fw M OptLevel s =
      (case CompileModule fw (CloneModule fw m) [] True OptLevel s of
         Returns (status, buf) s \<Rightarrow>
           if status \<noteq> 0 then Returns (0, None) s
           else Returns (length buf, Some buf) s
       | Exits n s \<Rightarrow> Exits n s
       | Aborts \<Rightarrow> Aborts
       | Undefined \<Rightarrow> Undefined)"
    using assms by (simp add: HLC_ModuleEmitBRIG_def deref_def OptLevel_check_never_holds)
  show "case HLC_ModuleEmitBRIG fw M OptLevel s of
          Returns r s' \<Rightarrow>
            modules s' = modules s \<and> refs s' = refs s \<and>
            to_string fw M s' = Returns (Module_print fw m) s'
        | Exits n s' \<Rightarrow> False
        | Aborts \<Rightarrow> True
        | Undefined \<Rightarrow> False"
    using CompileModule_frame [where fw = fw and mod' = "CloneModule fw m" and os = "[]"
        and emitBRIG = True and OptLevel = OptLevel and s = s] assms
    by (auto simp: eq to_string_frame split: outcome.splits prod.splits)
qed

theorem emit_leaves_module_unchanged_witness:
  "to_string trace_llvm 0 (one_module (TraceModule False [])) =
     Returns ''module'' (one_module (TraceModule False [])) \<and>
   HLC_ModuleEmitHSAIL trace_llvm 0 3 (one_module (TraceModule False [])) =
     Returns (1, Some ''code'') (one_module (TraceModule False [])) \<and>
   HLC_ModuleEmitBRIG trace_llvm 0 3 (one_module (TraceModule False [])) =
     Returns (4, Some ''code'') (one_module (TraceModule False []))"
  using emit_leaves_module_unchanged [of "one_module (TraceModule False [])" 0 0
      "TraceModule False []" trace_llvm 3]
  by (simp add: one_module_def trace_llvm_def HLC_ModuleEmitHSAIL_def HLC_ModuleEmitBRIG_def
      deref_def CompileModule_def HLC_CreateString_def Let_def)

text \<open>
  C9, as the claim states it: after the destroy operation of the boundary the handle's
  module pointer is null and its boolean conversion is false. It is not: HLC_ModuleDestroy
  also deletes the \<^verbatim>\<open>ModuleRef\<close> the handle points to, so afterwards the handle is
  dangling, its boolean conversion is a read of freed memory (undefined, not false), and a
  second HLC_ModuleDestroy is undefined too.
\<close>

theorem HLC_ModuleDestroy_handle_counterexample:
  "HLC_ModuleDestroy 0 (one_module (TraceModule False [])) =
     Returns () \<lparr>modules = Map.empty, refs = Map.empty, errs = ''''\<rparr> \<and>
   operator_bool 0 \<lparr>modules = (Map.empty :: addr \<rightharpoonup> trace_module), refs = Map.empty, errs = ''''\<rparr> =
     Undefined \<and>
   operator_bool 0 \<lparr>modules = (Map.empty :: addr \<rightharpoonup> trace_module), refs = Map.empty, errs = ''''\<rparr> \<noteq>
     Returns False \<lparr>modules = Map.empty, refs = Map.empty, errs = ''''\<rparr> \<and>
   HLC_ModuleDestroy 0 \<lparr>modules = (Map.empty :: addr \<rightharpoonup> trace_module), refs = Map.empty, errs = ''''\<rparr> =
     Undefined"
  by (simp add: HLC_ModuleDestroy_def destroy_def operator_bool_def one_module_def)

text \<open>
  C9, amended. For a live handle whose \<^verbatim>\<open>ModuleRef\<close> points to a live module:
  \<^verbatim>\<open>ModuleRef::destroy\<close> deletes the module and leaves the \<^verbatim>\<open>ModuleRef\<close> with a null
  module pointer, so that its boolean conversion is false and \<open>getModule\<close> gives null.
  HLC_ModuleDestroy does that and then deletes the \<^verbatim>\<open>ModuleRef\<close> itself: after it
  neither the module nor the \<^verbatim>\<open>ModuleRef\<close> is live, and the boolean conversion,
  \<open>getModule\<close> and a second HLC_ModuleDestroy through the handle are undefined.
\<close>

theorem destroy_then_delete:
  assumes "refs s h = Some (Some a)" and "modules s a = Some m"
  shows "destroy h s =
           Returns () (s\<lparr>modules := (modules s)(a := None), refs := (refs s)(h \<mapsto> None)\<rparr>) \<and>
         operator_bool h (s\<lparr>modules := (modules s)(a := None), refs := (refs s)(h \<mapsto> None)\<rparr>) =
           Returns False (s\<lparr>modules := (modules s)(a := None), refs := (refs s)(h \<mapsto> None)\<rparr>) \<and>
         getModule h (s\<lparr>modules := (modules s)(a := None), refs := (refs s)(h \<mapsto> None)\<rparr>) =
           Returns None (s\<lparr>modules := (modules s)(a := None), refs := (refs s)(h \<mapsto> None)\<rparr>) \<and>
         HLC_ModuleDestroy h s =
           Returns () (s\<lparr>modules := (modules s)(a := None), refs := (refs s)(h := None)\<rparr>) \<and>
         operator_bool h (s\<lparr>modules := (modules s)(a := None), refs := (refs s)(h := None)\<rparr>) =
           Undefined \<and>
         getModule h (s\<lparr>modules := (modules s)(a := None), refs := (refs s)(h := None)\<rparr>) =
           Undefined \<and>
         HLC_ModuleDestroy h (s\<lparr>modules := (modules s)(a := None), refs := (refs s)(h := None)\<rparr>) =
           Undefined"
  using assms
  by (simp add: destroy_def operator_bool_def getModule_def HLC_ModuleDestroy_def)

theorem destroy_then_delete_witness:
  "destroy 0 (one_module (TraceModule False [])) =
     Returns () \<lparr>modules = Map.empty, refs = [0 \<mapsto> None], errs = ''''\<rparr> \<and>
   operator_bool 0 \<lparr>modules = (Map.empty :: addr \<rightharpoonup> trace_module), refs = [0 \<mapsto> None], errs = ''''\<rparr> =
     Returns False \<lparr>modules = Map.empty, refs = [0 \<mapsto> None], errs = ''''\<rparr> \<and>
   HLC_ModuleDestroy 0 (one_module (TraceModule False [])) =
     Returns () \<lparr>modules = Map.empty, refs = Map.empty, errs = ''''\<rparr>"
  using destroy_then_delete [of "one_module (TraceModule False [])" 0 0 "TraceModule False []"]
  by (simp add: one_module_def)

text \<open>
  C2. The claim: when the target cannot be resolved, the two emit functions fail. The
  code at the failing lookup (\<open>lookupTarget\<close> gives no target): CompileModule returns
  status 0 with an empty stream, so HLC_ModuleEmitHSAIL stores the empty string through
  \<^verbatim>\<open>output\<close> and returns 1, its success value; HLC_ModuleEmitBRIG stores an empty buffer
  and returns its length, 0.
\<close>

theorem emit_target_not_found_returns_success:
  assumes "refs s M = Some (Some a)" and "modules s a = Some m"
    and "lookupTarget fw MArch (Triple_normalize fw ''amdgcn--amdhsa'') = Inl Error"
  shows "CompileModule fw (CloneModule fw m) [] False OptLevel s =
           Returns (0, []) (s\<lparr>errs := errs s @ Error\<rparr>) \<and>
         HLC_ModuleEmitHSAIL fw M OptLevel s =
           Returns (1, Some []) (s\<lparr>errs := errs s @ Error\<rparr>) \<and>
         HLC_ModuleEmitBRIG fw M OptLevel s =
           Returns (0, Some []) (s\<lparr>errs := errs s @ Error\<rparr>)"
  using assms
  by (simp add: HLC_ModuleEmitHSAIL_def HLC_ModuleEmitBRIG_def deref_def
      CompileModule_target_not_found OptLevel_check_never_holds HLC_CreateString_def)

theorem emit_target_not_found_returns_success_witness:
  "CompileModule no_target_llvm (TraceModule False []) [] False 2 (one_module (TraceModule False [])) =
     Returns (0, []) \<lparr>modules = [0 \<mapsto> TraceModule False []], refs = [0 \<mapsto> Some 0],
                       errs = ''no target''\<rparr> \<and>
   HLC_ModuleEmitHSAIL no_target_llvm 0 2 (one_module (TraceModule False [])) =
     Returns (1, Some []) \<lparr>modules = [0 \<mapsto> TraceModule False []], refs = [0 \<mapsto> Some 0],
                            errs = ''no target''\<rparr> \<and>
   HLC_ModuleEmitBRIG no_target_llvm 0 2 (one_module (TraceModule False [])) =
     Returns (0, Some []) \<lparr>modules = [0 \<mapsto> TraceModule False []], refs = [0 \<mapsto> Some 0],
                            errs = ''no target''\<rparr>"
  using emit_target_not_found_returns_success [of "one_module (TraceModule False [])" 0 0
      "TraceModule False []" no_target_llvm "''no target''" 2]
  by (simp add: one_module_def no_target_llvm_def trace_llvm_def)

text \<open>
  C3, as the claim states it: with a requested size level of 2 neither vectorisation is
  enabled in the bundle of the requested level. It is not: Optimize at level 2 with size
  level 2 (switches at their initial values, uninitialised flags reading as false)
  runs function and module bundles whose builder has size level 0 and both
  vectorisations enabled.
\<close>

theorem Optimize_size_level_2_counterexample:
  "Optimize trace_llvm initial_switches all_false (Some 0) 2 2 0 (one_module (TraceModule False [])) =
     Returns ()
       \<lparr>modules = [0 \<mapsto> TraceModule False
          [[TargetTransformInfoWrapperPass
              (Some \<lparr>TM_Target = ''amdgcn'', TM_Triple = ''amdgcn--amdhsa'', TM_CPU = ''fiji'',
                      TM_Features = '''',
                      TM_Options = \<lparr>FromCodeGenFlags = False, AsmVerbose = False\<rparr>,
                      TM_OptLevel = CodeGenOpt_Default\<rparr>),
            VerifierPass,
            FunctionPasses
              \<lparr>Builder_OptLevel = 2, Builder_SizeLevel = 0,
                 Inliner = Some (FunctionInliningPass (Some (2, 0))),
                 DisableUnitAtATime = False, DisableUnrollLoops = False,
                 LoopVectorize = True, SLPVectorize = True, VerifyInput = False\<rparr>],
           [TargetLibraryInfoWrapperPass
              \<lparr>TLII_Triple = ''amdgcn--amdhsa'', TLII_AllFunctionsDisabled = True\<rparr>,
            TargetTransformInfoWrapperPass
              (Some \<lparr>TM_Target = ''amdgcn'', TM_Triple = ''amdgcn--amdhsa'', TM_CPU = ''fiji'',
                      TM_Features = '''',
                      TM_Options = \<lparr>FromCodeGenFlags = False, AsmVerbose = False\<rparr>,
                      TM_OptLevel = CodeGenOpt_Default\<rparr>),
            LTOPasses
              \<lparr>Builder_OptLevel = 2, Builder_SizeLevel = 0,
                 Inliner = Some (FunctionInliningPass None),
                 DisableUnitAtATime = False, DisableUnrollLoops = False,
                 LoopVectorize = False, SLPVectorize = False, VerifyInput = True\<rparr>,
            ModulePasses
              \<lparr>Builder_OptLevel = 2, Builder_SizeLevel = 0,
                 Inliner = Some (FunctionInliningPass (Some (2, 0))),
                 DisableUnitAtATime = False, DisableUnrollLoops = False,
                 LoopVectorize = True, SLPVectorize = True, VerifyInput = False\<rparr>,
            VerifierPass]]],
        refs = [0 \<mapsto> Some 0], errs = ''''\<rparr>"
  by (simp add: Optimize_def Optimize_Passes_def Optimize_FPasses_def Optimize_flags_def
      AddOptimizationPasses_deref_def AddOptimizationPasses_def AddOptimizationPasses_Builder_def
      AddStandardLinkPasses_def GetTargetMachine_def GetCodeGenOptLevel_def MArch_def
      deref_def one_module_def trace_llvm_def trace_builder_def initial_switches_def
      all_false_def Let_def)

text \<open>
  C3, amended. For every call of Optimize with OptLevel 1, 2 or 3 and any SizeLevel,
  the pass managers hold the bundle of the requested level, and every bundle in them with
  that level is built by AddOptimizationPasses from the requested level and size level 0,
  whatever size level was requested. In that bundle straight-line vectorisation is
  enabled exactly when OptLevel > 1 and DisableSLPVectorization is not set, and loop
  vectorisation exactly when DisableLoopVectorization is not set and either OptLevel > 1
  or the framework's builder already had it forced on. The requested SizeLevel changes
  nothing in the outcome of the call.
\<close>

theorem Optimize_vectorization_by_level:
  assumes "OptLevel = 1 \<or> OptLevel = 2 \<or> OptLevel = 3"
  shows "(\<exists>Passes FPM.
           Optimize_Passes fw sw u OptLevel SizeLevel Verify T TM = Some (Passes, Some FPM) \<and>
           ModulePasses (AddOptimizationPasses_Builder fw sw (nat OptLevel) 0) \<in> set Passes \<and>
           FunctionPasses (AddOptimizationPasses_Builder fw sw (nat OptLevel) 0) \<in> set FPM \<and>
           (\<forall>B. (ModulePasses B \<in> set Passes \<or> FunctionPasses B \<in> set FPM) \<and>
                Builder_OptLevel B = nat OptLevel \<longrightarrow>
                B = AddOptimizationPasses_Builder fw sw (nat OptLevel) 0)) \<and>
         Builder_SizeLevel (AddOptimizationPasses_Builder fw sw (nat OptLevel) 0) = 0 \<and>
         LoopVectorize (AddOptimizationPasses_Builder fw sw (nat OptLevel) 0) =
           (\<not> DisableLoopVectorization sw \<and>
            (LoopVectorize (PassManagerBuilder_new fw) \<or> OptLevel > 1)) \<and>
         SLPVectorize (AddOptimizationPasses_Builder fw sw (nat OptLevel) 0) =
           (\<not> DisableSLPVectorization sw \<and> OptLevel > 1) \<and>
         Optimize fw sw u M OptLevel SizeLevel Verify s = Optimize fw sw u M OptLevel 0 Verify s"
proof -
  have lv: "(1 < nat OptLevel) = (OptLevel > 1)"
    by arith
  show ?thesis
    using Optimize_Passes_requested_bundle [OF assms, of fw sw u SizeLevel Verify T TM]
      Optimize_ignores_SizeLevel [of fw sw u M OptLevel SizeLevel Verify s 0 Verify]
    by (simp add: Builder_levels Builder_LoopVectorize Builder_SLPVectorize lv)
qed

theorem Optimize_vectorization_by_level_witness:
  "(\<exists>Passes FPM.
      Optimize_Passes trace_llvm initial_switches all_false 2 2 0 ''amdgcn--amdhsa'' None =
        Some (Passes, Some FPM) \<and>
      ModulePasses (AddOptimizationPasses_Builder trace_llvm initial_switches 2 0) \<in> set Passes \<and>
      FunctionPasses (AddOptimizationPasses_Builder trace_llvm initial_switches 2 0) \<in> set FPM) \<and>
   Builder_SizeLevel (AddOptimizationPasses_Builder trace_llvm initial_switches 2 0) = 0 \<and>
   LoopVectorize (AddOptimizationPasses_Builder trace_llvm initial_switches 2 0) \<and>
   SLPVectorize (AddOptimizationPasses_Builder trace_llvm initial_switches 2 0) \<and>
   Optimize trace_llvm initial_switches all_false (Some 0) 2 2 0 (one_module (TraceModule False [])) =
   Optimize trace_llvm initial_switches all_false (Some 0) 2 0 0 (one_module (TraceModule False []))"
proof -
  have two: "nat 2 = 2"
    by simp
  have sw: "\<not> DisableLoopVectorization initial_switches" "\<not> DisableSLPVectorization initial_switches"
    by (simp_all add: initial_switches_def)
  show ?thesis
    using Optimize_vectorization_by_level [of 2 trace_llvm initial_switches all_false 2 0
        "''amdgcn--amdhsa''" None "Some 0" "one_module (TraceModule False [])"] sw
    unfolding two
    by auto
qed

text \<open>
  C5. The claim: at level 0 Optimize runs no transformation pass. The code at level 0
  reads \<^verbatim>\<open>OptLevelO1\<close>, \<^verbatim>\<open>OptLevelO2\<close>, \<^verbatim>\<open>OptLevelO3\<close> and \<^verbatim>\<open>StandardLinkOpts\<close>
  uninitialised. In a run where \<^verbatim>\<open>OptLevelO1\<close> reads as true, the level-1 bundle is
  built and run: the function passes on the function of the module, then the module
  passes.
\<close>

theorem Optimize_level_0_runs_passes:
  "Optimize trace_llvm initial_switches
     \<lparr>indet_OptLevelO1 = True, indet_OptLevelO2 = False, indet_OptLevelO3 = False,
      indet_StandardLinkOpts = False\<rparr>
     (Some 0) 0 0 0 (one_module (TraceModule False [])) =
     Returns ()
       \<lparr>modules = [0 \<mapsto> TraceModule False
          [[TargetTransformInfoWrapperPass
              (Some \<lparr>TM_Target = ''amdgcn'', TM_Triple = ''amdgcn--amdhsa'', TM_CPU = ''fiji'',
                      TM_Features = '''',
                      TM_Options = \<lparr>FromCodeGenFlags = False, AsmVerbose = False\<rparr>,
                      TM_OptLevel = CodeGenOpt_None\<rparr>),
            VerifierPass,
            FunctionPasses
              \<lparr>Builder_OptLevel = 1, Builder_SizeLevel = 0,
                 Inliner = Some AlwaysInlinerPass,
                 DisableUnitAtATime = False, DisableUnrollLoops = False,
                 LoopVectorize = False, SLPVectorize = False, VerifyInput = False\<rparr>],
           [TargetLibraryInfoWrapperPass
              \<lparr>TLII_Triple = ''amdgcn--amdhsa'', TLII_AllFunctionsDisabled = True\<rparr>,
            TargetTransformInfoWrapperPass
              (Some \<lparr>TM_Target = ''amdgcn'', TM_Triple = ''amdgcn--amdhsa'', TM_CPU = ''fiji'',
                      TM_Features = '''',
                      TM_Options = \<lparr>FromCodeGenFlags = False, AsmVerbose = False\<rparr>,
                      TM_OptLevel = CodeGenOpt_None\<rparr>),
            ModulePasses
              \<lparr>Builder_OptLevel = 1, Builder_SizeLevel = 0,
                 Inliner = Some AlwaysInlinerPass,
                 DisableUnitAtATime = False, DisableUnrollLoops = False,
                 LoopVectorize = False, SLPVectorize = False, VerifyInput = False\<rparr>,
            VerifierPass]]],
        refs = [0 \<mapsto> Some 0], errs = ''''\<rparr>"
  by (simp add: Optimize_def Optimize_Passes_def Optimize_FPasses_def Optimize_flags_def
      AddOptimizationPasses_deref_def AddOptimizationPasses_def AddOptimizationPasses_Builder_def
      AddStandardLinkPasses_def GetTargetMachine_def GetCodeGenOptLevel_def MArch_def
      deref_def one_module_def trace_llvm_def trace_builder_def initial_switches_def Let_def)

text \<open>
  C10. GetCodeGenOptLevel maps level 1 to Less, 2 to Default, 3 to Aggressive, and every
  other integer (0 and all out-of-range values included) to None.
\<close>

theorem GetCodeGenOptLevel_table:
  "GetCodeGenOptLevel 1 = CodeGenOpt_Less \<and>
   GetCodeGenOptLevel 2 = CodeGenOpt_Default \<and>
   GetCodeGenOptLevel 3 = CodeGenOpt_Aggressive \<and>
   (n \<noteq> 1 \<and> n \<noteq> 2 \<and> n \<noteq> 3 \<longrightarrow> GetCodeGenOptLevel n = CodeGenOpt_None)"
  by (simp add: GetCodeGenOptLevel_def)

theorem GetCodeGenOptLevel_table_witness:
  "GetCodeGenOptLevel 0 = CodeGenOpt_None \<and> GetCodeGenOptLevel (- 1) = CodeGenOpt_None \<and>
   GetCodeGenOptLevel 4 = CodeGenOpt_None"
  using GetCodeGenOptLevel_table [of 0] GetCodeGenOptLevel_table [of "- 1"]
    GetCodeGenOptLevel_table [of 4]
  by simp

end
